theory Spec2Isabelle
  imports Complex_Main "HOL-Library.Multiset"
begin

section \<open>Configurable constants (App.js, lines 4-17)\<close>

definition TRIAL_TIME :: int where
  "TRIAL_TIME = 12"

definition PRACTICE_TIME :: int where
  "PRACTICE_TIME = 10"

definition WARNING_TIME :: int where
  "WARNING_TIME = 30"

definition PRACTICE_THEME :: string where
  "PRACTICE_THEME = ''SPACE''"

definition TRIAL_THEMES :: "string list" where
  "TRIAL_THEMES = [''TIME'', ''MYSTERY'', ''COMFORT'', ''MEMORY'', ''CURIOSITY'', ''FUTURE'']"

text \<open>The two entries of the \<^verbatim>\<open>CONDITIONS\<close> table; \<open>condition_id\<close> is the \<^verbatim>\<open>id\<close> field.\<close>

datatype condition = BE_CREATIVE | BE_FLUENT

fun condition_id :: "condition \<Rightarrow> string" where
  "condition_id BE_CREATIVE = ''BE_CREATIVE''"
| "condition_id BE_FLUENT = ''BE_FLUENT''"

section \<open>Trial sequence planner\<close>

text \<open>
  \<^verbatim>\<open>Math.random()\<close> is the only source of randomness. The \<open>k\<close>-th call made while
  \<^verbatim>\<open>MainApp\<close> mounts returns \<open>rnd k\<close>; its specification is a number in \<open>[0, 1)\<close>, which
  the theorems below take as their hypothesis \<open>unit_draws\<close>.
\<close>

type_synonym rng = "nat \<Rightarrow> real"

definition unit_draws :: "rng \<Rightarrow> bool" where
  "unit_draws rnd = (\<forall>k. 0 \<le> rnd k \<and> rnd k < 1)"

text \<open>
  \<^verbatim>\<open>[newArray[i], newArray[j]] = [newArray[j], newArray[i]]\<close>: the right-hand side is read
  first, then index \<open>i\<close> and index \<open>j\<close> are written in that order.
\<close>

definition swap :: "'a list \<Rightarrow> nat \<Rightarrow> nat \<Rightarrow> 'a list" where
  "swap newArray i j = (newArray[i := newArray ! j])[j := newArray ! i]"

text \<open>
  The loop \<^verbatim>\<open>for (let i = newArray.length - 1; i > 0; i--)\<close> of \<^verbatim>\<open>shuffleArray\<close>.
  The third argument is the loop variable \<open>i\<close>, the second counts the draws consumed so far.
\<close>

fun shuffle_loop :: "rng \<Rightarrow> nat \<Rightarrow> nat \<Rightarrow> 'a list \<Rightarrow> 'a list" where
  "shuffle_loop rnd k 0 newArray = newArray"
| "shuffle_loop rnd k (Suc m) newArray =
     (let i = Suc m;
          j = nat \<lfloor>rnd k * real (i + 1)\<rfloor>
      in shuffle_loop rnd (Suc k) m (swap newArray i j))"

definition shuffleArray :: "rng \<Rightarrow> nat \<Rightarrow> 'a list \<Rightarrow> 'a list" where
  "shuffleArray rnd k array = shuffle_loop rnd k (length array - 1) array"

record conditions =
  order :: string
  sequence :: "condition list"

definition createSequence :: "condition \<Rightarrow> condition list" where
  "createSequence c = replicate 3 c"

text \<open>The lazy initialiser of the \<^verbatim>\<open>conditions\<close> state cell: the first draw of the session.\<close>

definition conditions_init :: "rng \<Rightarrow> conditions" where
  "conditions_init rnd =
     (let isCreativeFirst = (rnd 0 < 1 / 2)
      in \<lparr> order = (if isCreativeFirst then ''creative_first'' else ''fluent_first''),
           sequence = (if isCreativeFirst
                       then createSequence BE_CREATIVE @ createSequence BE_FLUENT
                       else createSequence BE_FLUENT @ createSequence BE_CREATIVE) \<rparr>)"

text \<open>The lazy initialiser of the \<^verbatim>\<open>trialThemes\<close> state cell: draws 1, 2, ... of the session.\<close>

definition trialThemes_init :: "rng \<Rightarrow> string list" where
  "trialThemes_init rnd = PRACTICE_THEME # shuffleArray rnd 1 TRIAL_THEMES"

section \<open>Countdown timer (App.js, \<^verbatim>\<open>Timer\<close>)\<close>

text \<open>
  Times are milliseconds as \<^verbatim>\<open>Date.now()\<close> returns them. \<open>timerInterval\<close> says whether
  the interval set by the mount effect is still scheduled, \<open>onComplete_calls\<close> counts the
  invocations of the \<^verbatim>\<open>onComplete\<close> prop.
\<close>

record timer =
  timeLeft :: int
  isWarning :: bool
  endTimeRef :: int
  hasCompletedRef :: bool
  timerInterval :: bool
  onComplete_calls :: nat

text \<open>Mounting: the first render at time \<open>now\<close> and the mount effect, which sets the interval.\<close>

definition Timer :: "int \<Rightarrow> int \<Rightarrow> timer" where
  "Timer seconds now =
     \<lparr> timeLeft = seconds,
       isWarning = False,
       endTimeRef = now + seconds * 1000,
       hasCompletedRef = False,
       timerInterval = True,
       onComplete_calls = 0 \<rparr>"

text \<open>
  One run of the interval callback at time \<open>now\<close>. A cleared interval never calls back.
  The callback closes over the first render, so the \<^verbatim>\<open>isWarning\<close> it reads is always the
  initial \<^verbatim>\<open>false\<close>.
\<close>

definition tick :: "int \<Rightarrow> timer \<Rightarrow> timer" where
  "tick now t =
     (if \<not> timerInterval t then t
      else
        let remaining = \<lceil>real_of_int (endTimeRef t - now) / 1000\<rceil>;
            isWarning_seen = False;
            t1 = (if remaining \<le> WARNING_TIME \<and> \<not> isWarning_seen
                  then t\<lparr>isWarning := True\<rparr> else t)
        in if remaining \<le> 0
           then
             let t2 = t1\<lparr>timerInterval := False, timeLeft := 0\<rparr>
             in if \<not> hasCompletedRef t2
                then t2\<lparr>hasCompletedRef := True,
                        onComplete_calls := onComplete_calls t2 + 1\<rparr>
                else t2
           else t1\<lparr>timeLeft := remaining\<rparr>)"

text \<open>The cleanup of the mount effect.\<close>

definition unmount_Timer :: "timer \<Rightarrow> timer" where
  "unmount_Timer t = t\<lparr>timerInterval := False\<rparr>"

text \<open>The interval callback run at the successive times of a list.\<close>

fun ticks :: "timer \<Rightarrow> int list \<Rightarrow> timer" where
  "ticks t [] = t"
| "ticks t (now # nows) = ticks (tick now t) nows"

section \<open>Strings as JavaScript reads them\<close>

text \<open>
  A string is a list of 8-bit characters. \<^verbatim>\<open>String.prototype.trim\<close> removes white space
  at both ends; within the 8-bit range the white space and line terminator characters of
  ECMAScript are the codes 9 to 13, 32 and 160. A string is truthy when it is not empty.
\<close>

definition is_whitespace :: "char \<Rightarrow> bool" where
  "is_whitespace c = (of_char c \<in> {9, 10, 11, 12, 13, 32, 160 :: nat})"

definition trim :: "string \<Rightarrow> string" where
  "trim s = rev (dropWhile is_whitespace (rev (dropWhile is_whitespace s)))"

definition truthy :: "string \<Rightarrow> bool" where
  "truthy s = (s \<noteq> [])"

text \<open>The filter callback \<^verbatim>\<open>prompt => prompt.trim()\<close>.\<close>

definition nonblank :: "string \<Rightarrow> bool" where
  "nonblank prompt = truthy (trim prompt)"

text \<open>\<^verbatim>\<open>!selectedPrompt\<close> for a value that is \<^verbatim>\<open>null\<close> or a string.\<close>

fun falsy :: "string option \<Rightarrow> bool" where
  "falsy None = True"
| "falsy (Some s) = (\<not> truthy s)"

section \<open>Pages, requests and replies\<close>

text \<open>The keys of \<^verbatim>\<open>pageComponents\<close>: the values \<^verbatim>\<open>currentPage\<close> takes.\<close>

datatype page =
    Page_prolificId
  | Page_consent
  | Page_aiExperienceSurvey
  | Page_internetUsage
  | Page_generalInstructions
  | Page_practiceInstructions
  | Page_promptInput
  | Page_betweenTrials
  | Page_mainTrialTransition
  | Page_processing
  | Page_noImages
  | Page_imageRating
  | Page_thankYou

text \<open>
  The result of \<^verbatim>\<open>getPageName\<close>: \<^verbatim>\<open>`Trial ${currentTrialIndex} Input Phase`\<close> on the input
  page, the page's own name elsewhere (no page name of \<^verbatim>\<open>pageComponents\<close> starts with
  \<^verbatim>\<open>promptSelection_trial_\<close>).
\<close>

datatype page_name = Trial_Input_Phase nat | Page_name page

fun getPageName :: "page \<Rightarrow> nat \<Rightarrow> page_name" where
  "getPageName Page_promptInput currentTrialIndex = Trial_Input_Phase currentTrialIndex"
| "getPageName currentPage currentTrialIndex = Page_name currentPage"

record generated_image =
  imagePath :: string
  image_trialIndex :: nat
  image_theme :: string
  image_condition :: string
  image_prompt :: string

text \<open>Durations are seconds, instants are milliseconds.\<close>

record timing_data =
  firstKeypressLatency :: "real option"
  totalResponseTime :: "real option"
  selectionPhaseStart :: "int option"
  selectionPhaseDuration :: "real option"

text \<open>The body of \<^verbatim>\<open>POST /api/save-prompt\<close>.\<close>

record submission =
  sub_prolificId :: string
  sub_trialIndex :: nat
  sub_condition :: string
  sub_theme :: "string option"
  sub_prompts :: "string list"
  sub_selectedPrompt :: "string option"
  sub_isPractice :: bool
  sub_conditionOrder :: string
  sub_timingData :: timing_data
  sub_timestamp :: int

text \<open>One element of the body of \<^verbatim>\<open>POST /api/save-ratings\<close>.\<close>

record formatted_rating =
  fr_prolificId :: string
  fr_trialIndex :: nat
  creativityRating :: "nat option"
  intentionRating :: "nat option"
  fr_theme :: string
  fr_condition :: string
  fr_prompt :: string
  fr_timestamp :: int

text \<open>The survey form's state, and the \<^verbatim>\<open>survey\<close> object the older variant posts.\<close>

record survey_responses =
  genAiExperience :: string
  textToImageExperience :: string
  dall_e :: bool
  midjourney :: bool
  stable_diffusion :: bool
  other :: bool
  otherTools :: string

record survey_data =
  sd_prolificId :: string
  sd_genAiExperience :: string
  sd_textToImageExperience :: string
  sd_toolsUsed :: "bool \<times> bool \<times> bool \<times> bool"
  sd_otherTools :: "string option"
  sd_timestamp :: int

text \<open>Every request a handler of the application can issue.\<close>

datatype request =
    POST_save_timing string page_name int int
  | POST_save_survey survey_data
  | POST_save_prompt submission
  | GET_check_generation_status string
  | GET_get_all_images string
  | POST_save_ratings "formatted_rating list"
  | POST_mark_completion string int

text \<open>
  What the backend answers. A \<open>throws\<close> reply is a rejected \<^verbatim>\<open>fetch\<close> (transport failure)
  or, where the handler parses the body without looking at the status, a rejected
  \<^verbatim>\<open>response.json()\<close> or a body without the field read; it carries the error's message.
  \<open>Status_data s\<close> is a parsed body whose \<^verbatim>\<open>status\<close> field is \<open>s\<close>; a body without that field
  takes the \<^verbatim>\<open>default\<close> branch of the \<^verbatim>\<open>switch\<close>, as any \<open>s\<close> other than the four known
  values does. \<open>Images_response ok images\<close>
  is a response with that \<^verbatim>\<open>ok\<close> flag whose body's \<^verbatim>\<open>images\<close> field is the list, or is
  missing (\<open>None\<close>). \<open>Post_response ok\<close> is a response with that \<^verbatim>\<open>ok\<close> flag.
\<close>

datatype status_reply = Status_throws string | Status_data string

datatype images_reply = Images_throws string | Images_response bool "generated_image list option"

datatype post_reply = Post_throws string | Post_response bool

datatype error_body = Body_throws string | Body_detail "string option"

datatype ratings_reply = Ratings_throws string | Ratings_response bool error_body

text \<open>
  The replies one handler invocation receives. \<open>check_generation_status k\<close> answers the
  status request issued when \<^verbatim>\<open>attempts\<close> was \<open>k\<close>.
\<close>

record backend =
  save_prompt :: post_reply
  check_generation_status :: "nat \<Rightarrow> status_reply"
  get_all_images :: images_reply
  save_ratings :: ratings_reply
  mark_completion :: post_reply

section \<open>The application state (App.js, \<^verbatim>\<open>MainApp\<close>)\<close>

text \<open>
  The state cells of \<^verbatim>\<open>MainApp\<close>, the two refs of \<^verbatim>\<open>usePageTracking\<close>, and two
  observations of its effects: \<open>sent\<close>, the requests issued so far in order, and
  \<open>unhandled_rejections\<close>, the number of promises that rejected with no handler attached.
\<close>

record app =
  currentPage :: page
  prolificId :: string
  currentTrialIndex :: nat
  generatedImages :: "generated_image list"
  isLoading :: bool
  error :: "string option"
  conditions :: conditions
  trialThemes :: "string list"
  startTimeRef :: int
  previousPageRef :: page_name
  sent :: "request list"
  unhandled_rejections :: nat

definition MainApp :: "rng \<Rightarrow> int \<Rightarrow> app" where
  "MainApp rnd now =
     \<lparr> currentPage = Page_prolificId,
       prolificId = [],
       currentTrialIndex = 0,
       generatedImages = [],
       isLoading = False,
       error = None,
       conditions = conditions_init rnd,
       trialThemes = trialThemes_init rnd,
       startTimeRef = now,
       previousPageRef = getPageName Page_prolificId 0,
       sent = [],
       unhandled_rejections = 0 \<rparr>"

text \<open>
  The effect of \<^verbatim>\<open>usePageTracking\<close>, run after a render at time \<open>now\<close>. The request is
  fire-and-forget: its failure is logged and changes nothing.
\<close>

definition usePageTracking :: "int \<Rightarrow> app \<Rightarrow> app" where
  "usePageTracking now st =
     (let currentPageName = getPageName (currentPage st) (currentTrialIndex st)
      in if currentPageName = previousPageRef st then st
         else
           let st1 = (if truthy (prolificId st)
                      then st\<lparr>sent := sent st @
                             [POST_save_timing (prolificId st) (previousPageRef st)
                                (now - startTimeRef st) now]\<rparr>
                      else st)
           in st1\<lparr>startTimeRef := now, previousPageRef := currentPageName\<rparr>)"

text \<open>
  \<^verbatim>\<open>getCurrentTrial\<close>. Reading \<^verbatim>\<open>.id\<close> of a missing element of the condition sequence
  throws: the result is then \<open>None\<close>. A missing element of \<^verbatim>\<open>trialThemes\<close> is
  \<^verbatim>\<open>undefined\<close>: the theme is then \<open>None\<close>.
\<close>

definition getCurrentTrial :: "app \<Rightarrow> (string option \<times> string) option" where
  "getCurrentTrial st =
     (if currentTrialIndex st = 0 then Some (Some PRACTICE_THEME, ''practice'')
      else if currentTrialIndex st - 1 < length (sequence (conditions st))
      then Some ((if currentTrialIndex st < length (trialThemes st)
                  then Some (trialThemes st ! currentTrialIndex st) else None),
                 condition_id (sequence (conditions st) ! (currentTrialIndex st - 1)))
      else None)"

section \<open>Generation poller (App.js, \<^verbatim>\<open>pollGenerationStatus\<close>)\<close>

definition maxAttempts :: nat where
  "maxAttempts = 4"

definition pollInterval :: int where
  "pollInterval = 5000"

text \<open>The \<^verbatim>\<open>ready\<close> branch: the inner \<^verbatim>\<open>try\<close> catches every failure of the image fetch.\<close>

definition fetch_images :: "images_reply \<Rightarrow> app \<Rightarrow> app" where
  "fetch_images imagesResponse st =
     (let st1 = st\<lparr>sent := sent st @ [GET_get_all_images (prolificId st)]\<rparr>
      in case imagesResponse of
           Images_throws msg \<Rightarrow> st1\<lparr>currentPage := Page_noImages\<rparr>
         | Images_response ok images \<Rightarrow>
             if \<not> ok then st1\<lparr>currentPage := Page_noImages\<rparr>
             else (case images of
                     Some (img # rest) \<Rightarrow>
                       st1\<lparr>generatedImages := img # rest,
                           currentPage := Page_imageRating,
                           isLoading := False\<rparr>
                   | _ \<Rightarrow> st1\<lparr>currentPage := Page_noImages\<rparr>))"

text \<open>
  How one call of the inner \<^verbatim>\<open>poll\<close> ends: its promise resolves with nothing scheduled,
  resolves after \<^verbatim>\<open>setTimeout(poll, pollInterval)\<close>, or rejects.
\<close>

datatype poll_result = Poll_done | Poll_rescheduled | Poll_rejected string

text \<open>
  One call of \<^verbatim>\<open>poll\<close> with the closure variable \<^verbatim>\<open>attempts\<close>; the result carries its
  new value.
\<close>

definition poll :: "backend \<Rightarrow> nat \<Rightarrow> app \<Rightarrow> poll_result \<times> nat \<times> app" where
  "poll b attempts st =
     (if attempts \<ge> maxAttempts then (Poll_done, attempts, st\<lparr>currentPage := Page_noImages\<rparr>)
      else
        let attempts' = attempts + 1;
            st1 = st\<lparr>sent := sent st @ [GET_check_generation_status (prolificId st)]\<rparr>
        in case check_generation_status b attempts of
             Status_throws msg \<Rightarrow> (Poll_rejected msg, attempts', st1)
           | Status_data status \<Rightarrow>
               if status = ''ready'' then (Poll_done, attempts', fetch_images (get_all_images b) st1)
               else if status = ''no_trials'' \<or> status = ''all_failed''
               then (Poll_done, attempts', st1\<lparr>currentPage := Page_noImages\<rparr>)
               else if status = ''pending'' then (Poll_rescheduled, attempts', st1)
               else (Poll_done, attempts', st1\<lparr>currentPage := Page_noImages\<rparr>))"

text \<open>
  The calls of \<^verbatim>\<open>poll\<close> made by the timeout. Nothing awaits their promise, so a
  rejection reaches no \<^verbatim>\<open>catch\<close>.
\<close>

function scheduled_polls :: "backend \<Rightarrow> nat \<Rightarrow> app \<Rightarrow> app" where
  "scheduled_polls b attempts st =
     (case poll b attempts st of
        (Poll_done, attempts', st') \<Rightarrow> st'
      | (Poll_rejected msg, attempts', st') \<Rightarrow>
          st'\<lparr>unhandled_rejections := unhandled_rejections st' + 1\<rparr>
      | (Poll_rescheduled, attempts', st') \<Rightarrow> scheduled_polls b attempts' st')"
  by pat_completeness auto
termination
proof (relation "measure (\<lambda>(b, attempts, st). maxAttempts - attempts)")
  show "wf (measure (\<lambda>(b, attempts, st). maxAttempts - attempts))"
    by simp
next
  fix b attempts st x2 x y xa ya
  assume "(x2, x) = poll b attempts st" and "(xa, ya) = x" and "x2 = Poll_rescheduled"
  then have "poll b attempts st = (Poll_rescheduled, xa, ya)"
    by simp
  then have "attempts < maxAttempts \<and> xa = attempts + 1"
    by (auto simp: poll_def Let_def split: if_splits status_reply.splits)
  then show "((b, xa, ya), (b, attempts, st)) \<in> measure (\<lambda>(b, attempts, st). maxAttempts - attempts)"
    by (simp add: diff_less_mono2)
qed

text \<open>
  \<^verbatim>\<open>pollGenerationStatus\<close>: the first call of \<^verbatim>\<open>poll\<close> is awaited inside the
  \<^verbatim>\<open>try\<close>, the later ones run from the timeout.
\<close>

definition pollGenerationStatus :: "backend \<Rightarrow> app \<Rightarrow> app" where
  "pollGenerationStatus b st =
     (case poll b 0 st of
        (Poll_done, attempts', st') \<Rightarrow> st'
      | (Poll_rejected msg, attempts', st') \<Rightarrow>
          st'\<lparr>error := Some ''Failed to load images'',
              isLoading := False,
              currentPage := Page_noImages\<rparr>
      | (Poll_rescheduled, attempts', st') \<Rightarrow> scheduled_polls b attempts' st')"

section \<open>Advancing the trial sequence (App.js, \<^verbatim>\<open>handleNextTrial\<close>, \<^verbatim>\<open>handlePromptSubmission\<close>)\<close>

text \<open>
  \<^verbatim>\<open>handleNextTrial\<close> up to its call of \<^verbatim>\<open>pollGenerationStatus\<close>: the flag says whether
  that call is made. Its promise is not awaited, so the caller's own state updates come
  before the poller's.
\<close>

definition handleNextTrial :: "app \<Rightarrow> app \<times> bool" where
  "handleNextTrial st =
     (let nextTrialIndex = currentTrialIndex st + 1
      in if currentTrialIndex st = 0
         then (st\<lparr>currentTrialIndex := nextTrialIndex,
                   currentPage := Page_mainTrialTransition\<rparr>, False)
         else if nextTrialIndex \<ge> 7
         then (st\<lparr>isLoading := True, currentPage := Page_processing\<rparr>, True)
         else (st\<lparr>currentTrialIndex := nextTrialIndex,
                   currentPage := Page_betweenTrials\<rparr>, False))"

text \<open>
  The \<^verbatim>\<open>finally\<close> block of \<^verbatim>\<open>handlePromptSubmission\<close> after a call of
  \<^verbatim>\<open>handleNextTrial\<close>, then the polling that call started, if any.
\<close>

definition after_next_trial :: "backend \<Rightarrow> app \<times> bool \<Rightarrow> app" where
  "after_next_trial b r =
     (let st' = (fst r)\<lparr>isLoading := False\<rparr>
      in if snd r then pollGenerationStatus b st' else st')"

text \<open>The message of the error thrown by reading \<^verbatim>\<open>.id\<close> of \<^verbatim>\<open>undefined\<close>.\<close>

definition TypeError_message :: string where
  "TypeError_message = ''Cannot read properties of undefined''"

text \<open>
  \<^verbatim>\<open>handlePromptSubmission(submittedPrompts, selectedPrompt, timingData)\<close> at time \<open>now\<close>,
  run to completion against the replies of \<open>b\<close>.
\<close>

definition handlePromptSubmission ::
  "backend \<Rightarrow> int \<Rightarrow> string list \<Rightarrow> string option \<Rightarrow> timing_data \<Rightarrow> app \<Rightarrow> app" where
  "handlePromptSubmission b now submittedPrompts selected timingData st =
     (let st0 = st\<lparr>isLoading := True, error := None\<rparr>
      in if length submittedPrompts = 0 then after_next_trial b (handleNextTrial st0)
         else if falsy selected \<and> length submittedPrompts > 0 then st0\<lparr>isLoading := False\<rparr>
         else
           (case getCurrentTrial st0 of
              None \<Rightarrow> st0\<lparr>error := Some TypeError_message, isLoading := False\<rparr>
            | Some currentTrial \<Rightarrow>
                let submission =
                      \<lparr> sub_prolificId = prolificId st0,
                        sub_trialIndex = currentTrialIndex st0,
                        sub_condition = snd currentTrial,
                        sub_theme = fst currentTrial,
                        sub_prompts = submittedPrompts,
                        sub_selectedPrompt = selected,
                        sub_isPractice = (currentTrialIndex st0 = 0),
                        sub_conditionOrder = order (conditions st0),
                        sub_timingData = timingData,
                        sub_timestamp = now \<rparr>;
                    st1 = st0\<lparr>sent := sent st0 @ [POST_save_prompt submission]\<rparr>
                in case save_prompt b of
                     Post_throws msg \<Rightarrow> st1\<lparr>error := Some msg, isLoading := False\<rparr>
                   | Post_response ok \<Rightarrow>
                       if \<not> ok
                       then st1\<lparr>error := Some ''Failed to save prompt'', isLoading := False\<rparr>
                       else after_next_trial b (handleNextTrial st1)))"

section \<open>The input phase (App.js, \<^verbatim>\<open>PromptInput\<close>)\<close>

text \<open>
  The state cells and refs of \<^verbatim>\<open>PromptInput\<close>; \<open>input_error\<close> is its own \<^verbatim>\<open>error\<close> cell.
  The cell \<^verbatim>\<open>showTheme\<close> only fades the theme in and is left out.
\<close>

record prompt_input =
  prompts :: "string list"
  isTimeUp :: bool
  selectedPrompt :: "string option"
  input_error :: "string option"
  firstKeypressTime :: "int option"
  firstKeypressRecorded :: bool
  responseStartRef :: int
  selectionStartTimeRef :: "int option"
  hasSubmitted :: bool
  promptsRef :: "string list"

definition PromptInput :: "int \<Rightarrow> prompt_input" where
  "PromptInput now =
     \<lparr> prompts = [''''],
       isTimeUp = False,
       selectedPrompt = None,
       input_error = None,
       firstKeypressTime = None,
       firstKeypressRecorded = False,
       responseStartRef = now,
       selectionStartTimeRef = None,
       hasSubmitted = False,
       promptsRef = [''''] \<rparr>"

definition currentTime :: "bool \<Rightarrow> int" where
  "currentTime isPractice = (if isPractice then PRACTICE_TIME else TRIAL_TIME)"

text \<open>
  The Timer the input page mounts: \<^verbatim>\<open>getPageProps\<close> passes
  \<^verbatim>\<open>isPractice: currentTrialIndex === 0\<close>, and \<^verbatim>\<open>PromptInput\<close> renders
  \<^verbatim>\<open><Timer seconds={currentTime} ... />\<close> while the time is not up.
\<close>

definition input_phase_Timer :: "app \<Rightarrow> int \<Rightarrow> timer" where
  "input_phase_Timer st now = Timer (currentTime (currentTrialIndex st = 0)) now"

text \<open>The effect \<^verbatim>\<open>promptsRef.current = prompts\<close>, run after every render that changed the prompts.\<close>

definition sync_promptsRef :: "prompt_input \<Rightarrow> prompt_input" where
  "sync_promptsRef p = p\<lparr>promptsRef := prompts p\<rparr>"

definition no_prompt_notice :: string where
  "no_prompt_notice = ''You did not provide any prompt. Please ensure to write down your prompt ideas in time. It is critical that you actively participate in the survey.''"

definition handleTimerComplete :: "int \<Rightarrow> prompt_input \<Rightarrow> prompt_input" where
  "handleTimerComplete now p =
     (let p1 = p\<lparr>isTimeUp := True\<rparr>;
          filteredPrompts = filter nonblank (promptsRef p)
      in if length filteredPrompts = 0
         then p1\<lparr>input_error := Some no_prompt_notice, prompts := []\<rparr>
         else p1\<lparr>prompts := filteredPrompts,
                 selectedPrompt := None,
                 selectionStartTimeRef := Some now\<rparr>)"

text \<open>
  The input page with its Timer: both are mounted at time \<open>now\<close>, and one interval
  tick at time \<open>n\<close> runs the Timer's callback. When that callback calls \<^verbatim>\<open>onComplete\<close>,
  which is \<^verbatim>\<open>handleTimerComplete\<close>, the page sets \<^verbatim>\<open>isTimeUp\<close>, stops rendering the Timer,
  and the Timer's cleanup runs. Typing between ticks touches neither the Timer nor
  \<^verbatim>\<open>isTimeUp\<close> and is left out here.
\<close>

definition input_phase_mount :: "app \<Rightarrow> int \<Rightarrow> timer \<times> prompt_input" where
  "input_phase_mount st now = (input_phase_Timer st now, PromptInput now)"

definition input_phase_tick :: "int \<Rightarrow> timer \<times> prompt_input \<Rightarrow> timer \<times> prompt_input" where
  "input_phase_tick n tp =
     (let t' = tick n (fst tp)
      in if onComplete_calls t' = onComplete_calls (fst tp) then (t', snd tp)
         else (unmount_Timer t', sync_promptsRef (handleTimerComplete n (snd tp))))"

fun input_phase_ticks :: "timer \<times> prompt_input \<Rightarrow> int list \<Rightarrow> timer \<times> prompt_input" where
  "input_phase_ticks tp [] = tp"
| "input_phase_ticks tp (n # ns) = input_phase_ticks (input_phase_tick n tp) ns"

definition handleKeyPress :: "int \<Rightarrow> prompt_input \<Rightarrow> prompt_input" where
  "handleKeyPress now p =
     (if \<not> firstKeypressRecorded p
      then p\<lparr>firstKeypressTime := Some now, firstKeypressRecorded := True\<rparr>
      else p)"

text \<open>\<^verbatim>\<open>handlePromptChange(index, value)\<close>, called by the input at an existing index.\<close>

definition handlePromptChange :: "nat \<Rightarrow> string \<Rightarrow> prompt_input \<Rightarrow> prompt_input" where
  "handlePromptChange index v p =
     (if isTimeUp p then p
      else
        let prev = prompts p;
            newPrompts = prev[index := v]
        in p\<lparr>prompts := (if int index = int (length prev) - 1 \<and> nonblank v
                         then newPrompts @ [''''] else newPrompts)\<rparr>)"

definition handlePromptSelection :: "string \<Rightarrow> prompt_input \<Rightarrow> prompt_input" where
  "handlePromptSelection prompt p =
     (if \<not> isTimeUp p then p
      else p\<lparr>selectedPrompt := Some prompt, input_error := None\<rparr>)"

definition select_prompt_notice :: string where
  "select_prompt_notice = ''Please select one of your prompts before continuing.''"

text \<open>
  \<^verbatim>\<open>handleSubmit\<close> of \<^verbatim>\<open>PromptInput\<close> at time \<open>now\<close>: the new component state and the
  arguments of the call of \<^verbatim>\<open>onSubmit\<close>, if it is made.
\<close>

definition handleSubmit ::
  "int \<Rightarrow> prompt_input \<Rightarrow> prompt_input \<times> (string list \<times> string option \<times> timing_data) option" where
  "handleSubmit now p =
     (if hasSubmitted p then (p, None)
      else
        let validPrompts = filter nonblank (promptsRef p);
            timingData =
              \<lparr> firstKeypressLatency =
                  (case firstKeypressTime p of
                     Some t \<Rightarrow> Some (real_of_int (t - responseStartRef p) / 1000)
                   | None \<Rightarrow> None),
                totalResponseTime =
                  (if isTimeUp p then Some (real_of_int (now - responseStartRef p) / 1000)
                   else None),
                selectionPhaseStart = selectionStartTimeRef p,
                selectionPhaseDuration =
                  (case selectionStartTimeRef p of
                     Some t \<Rightarrow> Some (real_of_int (now - t) / 1000)
                   | None \<Rightarrow> None) \<rparr>
        in if falsy (selectedPrompt p) \<and> length validPrompts > 0
           then (p\<lparr>input_error := Some select_prompt_notice\<rparr>, None)
           else (p\<lparr>hasSubmitted := True\<rparr>, Some (validPrompts, selectedPrompt p, timingData)))"

text \<open>
  What the participant can do on the input page. Each control exists only while the
  page renders it: the text inputs and the Timer while the time is not up, the prompt
  buttons (one per element of \<^verbatim>\<open>prompts\<close>) and the Continue button once it is.
\<close>

datatype input_event =
    KeyDown int
  | Change nat string
  | TimerComplete int
  | Select nat
  | Continue int

text \<open>
  One event on a control of the mounted \<^verbatim>\<open>PromptInput\<close> in application state \<open>st\<close>,
  the replies of \<open>b\<close> answering the requests it causes.
\<close>

fun input_control :: "backend \<Rightarrow> input_event \<Rightarrow> app \<times> prompt_input \<Rightarrow> app \<times> prompt_input" where
  "input_control b (KeyDown now) (st, p) =
     (if \<not> isTimeUp p then (st, handleKeyPress now p) else (st, p))"
| "input_control b (Change index v) (st, p) =
     (if \<not> isTimeUp p \<and> index < length (prompts p)
      then (st, sync_promptsRef (handlePromptChange index v p)) else (st, p))"
| "input_control b (TimerComplete now) (st, p) =
     (if \<not> isTimeUp p then (st, sync_promptsRef (handleTimerComplete now p)) else (st, p))"
| "input_control b (Select index) (st, p) =
     (if isTimeUp p \<and> index < length (prompts p)
      then (st, handlePromptSelection (prompts p ! index) p) else (st, p))"
| "input_control b (Continue now) (st, p) =
     (if isTimeUp p
      then (case handleSubmit now p of
              (p', None) \<Rightarrow> (st, p')
            | (p', Some (validPrompts, selected, timingData)) \<Rightarrow>
                (handlePromptSubmission b now validPrompts selected timingData st, p'))
      else (st, p))"

text \<open>
  \<^verbatim>\<open>PromptInput\<close> is mounted only while \<^verbatim>\<open>currentPage\<close> is the input page: on any other
  page none of its controls exists. A step is the handler's own work. The page timing
  that \<^verbatim>\<open>usePageTracking\<close> posts after a render on a new page is not part of it: where a
  statement about the requests sent matters across a page change, \<open>usePageTracking\<close> is
  applied to the step's result.
\<close>

definition input_step :: "backend \<Rightarrow> input_event \<Rightarrow> app \<times> prompt_input \<Rightarrow> app \<times> prompt_input" where
  "input_step b e s = (if currentPage (fst s) = Page_promptInput then input_control b e s else s)"

fun input_steps :: "backend \<Rightarrow> input_event list \<Rightarrow> app \<times> prompt_input \<Rightarrow> app \<times> prompt_input" where
  "input_steps b [] s = s"
| "input_steps b (e # es) s = input_steps b es (input_step b e s)"

text \<open>Whether a request is a \<^verbatim>\<open>POST /api/save-prompt\<close>.\<close>

fun is_save_prompt :: "request \<Rightarrow> bool" where
  "is_save_prompt (POST_save_prompt s) = True"
| "is_save_prompt r = False"

section \<open>The rating phase (App.js, \<^verbatim>\<open>ImageRatingInterface\<close>, \<^verbatim>\<open>handleRatingSubmission\<close>)\<close>

text \<open>A rating is \<^verbatim>\<open>null\<close> until the participant moves its slider.\<close>

record rating =
  creativity :: "nat option"
  intention :: "nat option"






definition formattedRatings ::
  "string \<Rightarrow> int \<Rightarrow> rating list \<Rightarrow> generated_image list \<Rightarrow> formatted_rating list" where
  "formattedRatings pid now rs imgs =
     map (\<lambda>(img, r).
            \<lparr> fr_prolificId = pid,
              fr_trialIndex = image_trialIndex img,
              creativityRating = creativity r,
              intentionRating = intention r,
              fr_theme = image_theme img,
              fr_condition = image_condition img,
              fr_prompt = image_prompt img,
              fr_timestamp = now \<rparr>)
         (zip imgs rs)"











section \<open>The experience survey (App.js, \<^verbatim>\<open>AiExperienceSurvey\<close>)\<close>

text \<open>
  The Continue button of the survey form in application state \<open>st\<close>: \<^verbatim>\<open>handleSubmit\<close> of
  \<^verbatim>\<open>AiExperienceSurvey\<close> with the form's \<^verbatim>\<open>responses\<close>, whose \<^verbatim>\<open>onSubmit\<close> prop is
  \<^verbatim>\<open>() => setCurrentPage('generalInstructions')\<close>. The first component of the result is
  the form's own \<^verbatim>\<open>error\<close> cell where the handler sets it.
\<close>

definition survey_handleSubmit :: "survey_responses \<Rightarrow> app \<Rightarrow> string option \<times> app" where
  "survey_handleSubmit responses st =
     (if currentPage st \<noteq> Page_aiExperienceSurvey then (None, st)
      else if \<not> truthy (genAiExperience responses) \<or> \<not> truthy (textToImageExperience responses)
      then (Some ''Please complete all required fields'', st)
      else (None, st\<lparr>currentPage := Page_generalInstructions\<rparr>))"

fun is_save_survey :: "request \<Rightarrow> bool" where
  "is_save_survey (POST_save_survey d) = True"
| "is_save_survey r = False"

section \<open>The experience survey of the older variant (src/unnamed/part_000)\<close>

text \<open>
  The older \<^verbatim>\<open>TextToImageApp\<close> shows the survey right after the id entry and passes
  \<^verbatim>\<open>handleAiExperienceSurveySubmit\<close> as the form's \<^verbatim>\<open>onSubmit\<close> prop. These are the
  state cells that handler reads or writes, with the requests issued so far.
\<close>

record survey_app =
  sa_currentPage :: page
  sa_prolificId :: string
  sa_surveyResponses :: "survey_responses option"
  sa_otherTools :: "string option"
  sa_isLoading :: bool
  sa_error :: "string option"
  sa_sent :: "request list"

text \<open>
  The reply to \<^verbatim>\<open>POST /api/save-survey\<close>. For a response that is not \<^verbatim>\<open>ok\<close>,
  \<open>Body_throws\<close> is a rejected \<^verbatim>\<open>response.text()\<close> and \<open>Body_detail d\<close> a text whose
  \<^verbatim>\<open>detail\<close> field is \<open>d\<close> (\<open>None\<close> when the text does not parse or has no such field).
  For an \<^verbatim>\<open>ok\<close> response \<open>Body_throws\<close> is a rejected \<^verbatim>\<open>response.json()\<close>.
\<close>

datatype survey_reply = Survey_throws string | Survey_response bool error_body

text \<open>
  \<^verbatim>\<open>handleAiExperienceSurveySubmit(responses)\<close> at time \<open>now\<close>, where \<open>cleaned\<close> is the
  \<^verbatim>\<open>otherTools\<close> field of the cleaned responses (\<^verbatim>\<open>null\<close> unless the Other box is ticked).
\<close>

definition handleAiExperienceSurveySubmit ::
  "survey_reply \<Rightarrow> int \<Rightarrow> survey_responses \<Rightarrow> string option \<Rightarrow> survey_app \<Rightarrow> survey_app" where
  "handleAiExperienceSurveySubmit reply now responses cleaned st =
     (let st0 = st\<lparr>sa_isLoading := True, sa_error := None\<rparr>;
          surveyData =
            \<lparr> sd_prolificId = sa_prolificId st0,
              sd_genAiExperience = genAiExperience responses,
              sd_textToImageExperience = textToImageExperience responses,
              sd_toolsUsed = (dall_e responses, midjourney responses,
                              stable_diffusion responses, other responses),
              sd_otherTools = (if falsy cleaned then None else cleaned),
              sd_timestamp = now \<rparr>;
          st1 = st0\<lparr>sa_sent := sa_sent st0 @ [POST_save_survey surveyData]\<rparr>;
          failed = (\<lambda>msg. st1\<lparr>sa_error := Some (''Failed to save survey: '' @ msg),
                               sa_isLoading := False\<rparr>)
      in case reply of
           Survey_throws msg \<Rightarrow> failed msg
         | Survey_response ok body \<Rightarrow>
             if \<not> ok
             then (case body of
                     Body_throws msg \<Rightarrow> failed msg
                   | Body_detail detail \<Rightarrow>
                       failed (case detail of
                                 Some d \<Rightarrow> if truthy d then d else ''Failed to save survey''
                               | None \<Rightarrow> ''Failed to save survey''))
             else (case body of
                     Body_throws msg \<Rightarrow> failed msg
                   | Body_detail detail \<Rightarrow>
                       st1\<lparr>sa_surveyResponses := Some responses,
                           sa_otherTools := cleaned,
                           sa_currentPage := Page_consent,
                           sa_isLoading := False\<rparr>))"

text \<open>The older form's \<^verbatim>\<open>handleSubmit\<close>: validation, cleaning, then the \<^verbatim>\<open>onSubmit\<close> prop.\<close>

definition survey_handleSubmit_older ::
  "survey_reply \<Rightarrow> int \<Rightarrow> survey_responses \<Rightarrow> survey_app \<Rightarrow> string option \<times> survey_app" where
  "survey_handleSubmit_older reply now responses st =
     (if sa_currentPage st \<noteq> Page_aiExperienceSurvey then (None, st)
      else if \<not> truthy (genAiExperience responses) \<or> \<not> truthy (textToImageExperience responses)
      then (Some ''Please fill in all required fields'', st)
      else (None, handleAiExperienceSurveySubmit reply now responses
                    (if other responses then Some (otherTools responses) else None) st))"

section \<open>Observations and scenarios used by the theorems\<close>

text \<open>Counting the status requests issued so far.\<close>

fun is_check_generation_status :: "request \<Rightarrow> bool" where
  "is_check_generation_status (GET_check_generation_status pid) = True"
| "is_check_generation_status r = False"

definition status_requests :: "app \<Rightarrow> nat" where
  "status_requests st = length (filter is_check_generation_status (sent st))"

text \<open>A backend whose every status reply is \<^verbatim>\<open>pending\<close>.\<close>

definition always_pending :: "backend \<Rightarrow> backend" where
  "always_pending b = b\<lparr>check_generation_status := (\<lambda>k. Status_data ''pending'')\<rparr>"

text \<open>
  A backend that answers the first status request with \<^verbatim>\<open>pending\<close> and fails every later
  one at the transport level, and an application state on the processing page.
\<close>

definition second_poll_fails :: backend where
  "second_poll_fails =
     \<lparr> save_prompt = Post_response True,
       check_generation_status =
         (\<lambda>k. if k = 0 then Status_data ''pending'' else Status_throws ''Failed to fetch''),
       get_all_images = Images_response True None,
       save_ratings = Ratings_response True (Body_detail None),
       mark_completion = Post_response True \<rparr>"

definition processing_state :: app where
  "processing_state =
     (MainApp (\<lambda>k. 0) 0)\<lparr>prolificId := ''R7X9'',
                            currentTrialIndex := 6,
                            currentPage := Page_processing\<rparr>"

text \<open>
  What one run of the poller leaves alone: the page stays where it was or becomes the
  no-images or the rating page, no prompt is saved, the trial index is kept.
\<close>

definition poll_frame :: "app \<Rightarrow> app \<Rightarrow> bool" where
  "poll_frame st st' =
     (currentPage st' \<in> {currentPage st, Page_noImages, Page_imageRating}
      \<and> filter is_save_prompt (sent st') = filter is_save_prompt (sent st)
      \<and> currentTrialIndex st' = currentTrialIndex st)"

text \<open>
  The invariant of the mounted input page: the ref mirrors the prompts, a frozen prompt
  set holds no blank entry, nothing is selected or submitted before the time is up, and
  a selection is an element of the prompt set.
\<close>

definition input_inv :: "prompt_input \<Rightarrow> bool" where
  "input_inv p =
     (promptsRef p = prompts p
      \<and> (isTimeUp p \<longrightarrow> list_all nonblank (prompts p))
      \<and> (\<not> isTimeUp p \<longrightarrow> selectedPrompt p = None \<and> \<not> hasSubmitted p)
      \<and> (case selectedPrompt p of None \<Rightarrow> True | Some x \<Rightarrow> x \<in> set (prompts p)))"

text \<open>
  The practice trial's input page freshly reached by participant \<^verbatim>\<open>R7X9\<close>, a backend
  where every request succeeds, and one where saving a prompt is refused.
\<close>

definition practice_start :: app where
  "practice_start = (MainApp (\<lambda>k. 0) 0)\<lparr>prolificId := ''R7X9'', currentPage := Page_promptInput\<rparr>"

definition all_ok :: backend where
  "all_ok =
     \<lparr> save_prompt = Post_response True,
       check_generation_status = (\<lambda>k. Status_data ''ready''),
       get_all_images = Images_response True None,
       save_ratings = Ratings_response True (Body_detail None),
       mark_completion = Post_response True \<rparr>"

definition save_prompt_fails :: backend where
  "save_prompt_fails = all_ok\<lparr>save_prompt := Post_response False\<rparr>"

text \<open>The participant types one prompt and lets the time run out.\<close>

definition one_prompt_typed :: "input_event list" where
  "one_prompt_typed = [KeyDown 900, Change 0 ''a quiet forest'', TimerComplete 10000]"






text \<open>
  The lines of the task structure box of \<^verbatim>\<open>GeneralInstructions\<close> and of the practice box
  of \<^verbatim>\<open>PracticeInstructions\<close>, without their bullet characters, and the test whether a
  text contains a phrase.
\<close>

definition GeneralInstructions_task_structure :: "string list" where
  "GeneralInstructions_task_structure =
     [''The study consists of seven trials structured as follows:'',
      ''One practice trial (30s) to familiarize you with the task'',
      ''Six main trials with different themes and different instructions'',
      ''For each main trial, you will have 2 minutes to write prompts'',
      ''When the timer is up, you will select your best prompt'',
      ''The AI will generate images based on your chosen prompts'',
      ''After the last trial, you will evaluate the generated images'']"

definition PracticeInstructions_steps :: "string list" where
  "PracticeInstructions_steps =
     [''Have 30 seconds to write prompts for a given theme'',
      ''Select your best prompt after the time is up'',
      ''This helps you prepare for the main trials.'']"

fun mentions :: "string \<Rightarrow> string \<Rightarrow> bool" where
  "mentions [] phrase = (phrase = [])"
| "mentions (c # cs) phrase = (take (length phrase) (c # cs) = phrase \<or> mentions cs phrase)"

text \<open>The survey page with both required fields filled in.\<close>

definition survey_start :: app where
  "survey_start =
     (MainApp (\<lambda>k. 0) 0)\<lparr>prolificId := ''R7X9'',
                            currentPage := Page_aiExperienceSurvey,
                            previousPageRef := getPageName Page_aiExperienceSurvey 0\<rparr>"

definition survey_filled :: survey_responses where
  "survey_filled =
     \<lparr> genAiExperience = ''basic'', textToImageExperience = ''often'',
       dall_e = False, midjourney = False, stable_diffusion = False, other = False,
       otherTools = [] \<rparr>"

section \<open>Facts about the planner\<close>

lemma length_swap: "length (swap xs i j) = length xs"
  by (simp add: swap_def)

lemma mset_swap_in_range:
  assumes "i < length xs" and "j < length xs"
  shows "mset (swap xs i j) = mset xs"
  using mset_swap [OF assms(2) assms(1)] by (simp add: swap_def)

lemma draw_index_le:
  assumes "0 \<le> r" and "r < 1"
  shows "nat \<lfloor>r * real (i + 1)\<rfloor> \<le> i"
proof -
  have "r * real (i + 1) < real (i + 1)"
    using assms by simp
  then have "\<lfloor>r * real (i + 1)\<rfloor> < int (i + 1)"
    by (simp add: floor_less_iff)
  then show ?thesis by linarith
qed

lemma shuffle_loop_length:
  "length (shuffle_loop rnd k m xs) = length xs"
  by (induction m arbitrary: k xs) (simp_all add: Let_def length_swap)

lemma shuffle_loop_mset:
  assumes "unit_draws rnd" and "m < length xs"
  shows "mset (shuffle_loop rnd k m xs) = mset xs"
  using assms(2)
proof (induction m arbitrary: k xs)
  case 0
  show ?case by simp
next
  case (Suc m)
  let ?j = "nat \<lfloor>rnd k * real (Suc m + 1)\<rfloor>"
  have "?j \<le> Suc m"
    using assms(1) draw_index_le [of "rnd k" "Suc m"] by (simp add: unit_draws_def)
  with Suc.prems have j: "?j < length xs" by linarith
  have "mset (swap xs (Suc m) ?j) = mset xs"
    using Suc.prems j by (rule mset_swap_in_range)
  moreover have "m < length (swap xs (Suc m) ?j)"
    using Suc.prems by (simp add: length_swap)
  ultimately show ?case
    using Suc.IH [of "swap xs (Suc m) ?j" "Suc k"] by (simp add: Let_def)
qed

lemma shuffleArray_mset:
  assumes "unit_draws rnd"
  shows "mset (shuffleArray rnd k xs) = mset xs"
proof (cases xs)
  case Nil
  then show ?thesis by (simp add: shuffleArray_def)
next
  case (Cons a as)
  then have "length xs - 1 < length xs" by simp
  then show ?thesis
    unfolding shuffleArray_def using assms by (rule shuffle_loop_mset [rotated])
qed

lemma distinct_TRIAL_THEMES: "distinct TRIAL_THEMES"
  by (simp add: TRIAL_THEMES_def)

text \<open>
  Claim C8. For every random draw at session creation, the condition sequence is two
  contiguous blocks of three (BE_CREATIVE three times then BE_FLUENT three times when
  the single draw is below one half, the reverse otherwise), six slots in all, and the
  theme sequence has the practice theme at slot 0 followed by a permutation of the six
  themes of the pool: same multiset, no duplicates, six entries.
\<close>

theorem planner_blocks_and_theme_permutation:
  assumes "unit_draws rnd"
  shows "sequence (conditions_init rnd) =
           (if rnd 0 < 1 / 2
            then replicate 3 BE_CREATIVE @ replicate 3 BE_FLUENT
            else replicate 3 BE_FLUENT @ replicate 3 BE_CREATIVE)
         \<and> length (sequence (conditions_init rnd)) = 6
         \<and> hd (trialThemes_init rnd) = PRACTICE_THEME
         \<and> mset (tl (trialThemes_init rnd)) = mset TRIAL_THEMES
         \<and> distinct (tl (trialThemes_init rnd))
         \<and> length (trialThemes_init rnd) = 7"
proof -
  have seq: "sequence (conditions_init rnd) =
           (if rnd 0 < 1 / 2
            then replicate 3 BE_CREATIVE @ replicate 3 BE_FLUENT
            else replicate 3 BE_FLUENT @ replicate 3 BE_CREATIVE)"
    by (simp add: conditions_init_def createSequence_def Let_def)
  have len: "length (sequence (conditions_init rnd)) = 6"
    by (simp add: seq)
  have perm: "mset (shuffleArray rnd 1 TRIAL_THEMES) = mset TRIAL_THEMES"
    using assms by (rule shuffleArray_mset)
  have dist: "distinct (shuffleArray rnd 1 TRIAL_THEMES)"
    using perm distinct_TRIAL_THEMES by (metis mset_eq_imp_distinct_iff)
  have "length (shuffleArray rnd 1 TRIAL_THEMES) = length TRIAL_THEMES"
    using perm by (rule mset_eq_length)
  then have len7: "length (trialThemes_init rnd) = 7"
    by (simp add: trialThemes_init_def TRIAL_THEMES_def)
  show ?thesis
    using seq len perm dist len7 by (simp add: trialThemes_init_def)
qed

theorem planner_blocks_and_theme_permutation_witness:
  "unit_draws (\<lambda>k. 1 / 2)
   \<and> sequence (conditions_init (\<lambda>k. 1 / 2)) =
       [BE_FLUENT, BE_FLUENT, BE_FLUENT, BE_CREATIVE, BE_CREATIVE, BE_CREATIVE]
   \<and> hd (trialThemes_init (\<lambda>k. 1 / 2)) = ''SPACE''
   \<and> mset (tl (trialThemes_init (\<lambda>k. 1 / 2))) = mset TRIAL_THEMES
   \<and> distinct (tl (trialThemes_init (\<lambda>k. 1 / 2)))
   \<and> length (trialThemes_init (\<lambda>k. 1 / 2)) = 7"
proof -
  have h: "unit_draws (\<lambda>k. 1 / 2)"
    by (simp add: unit_draws_def)
  show ?thesis
    using h planner_blocks_and_theme_permutation [OF h]
    by (simp add: PRACTICE_THEME_def numeral_eq_Suc)
qed

section \<open>Facts about the countdown timer\<close>

lemma remaining_le_0_iff: "\<lceil>real_of_int x / 1000\<rceil> \<le> 0 \<longleftrightarrow> x \<le> 0"
  by (simp add: ceiling_le_iff)

lemma tick_cleared: "\<not> timerInterval t \<Longrightarrow> tick now t = t"
  by (simp add: tick_def)

lemma ticks_cleared: "\<not> timerInterval t \<Longrightarrow> ticks t nows = t"
  by (induction nows) (simp_all add: tick_cleared)

lemma tick_before_deadline:
  assumes "timerInterval t" and "now < endTimeRef t"
  shows "timerInterval (tick now t) \<and> endTimeRef (tick now t) = endTimeRef t
         \<and> hasCompletedRef (tick now t) = hasCompletedRef t
         \<and> onComplete_calls (tick now t) = onComplete_calls t"
  using assms by (simp add: tick_def Let_def remaining_le_0_iff)

lemma tick_at_deadline:
  assumes "timerInterval t" and "endTimeRef t \<le> now" and "\<not> hasCompletedRef t"
  shows "\<not> timerInterval (tick now t) \<and> onComplete_calls (tick now t) = onComplete_calls t + 1"
  using assms by (simp add: tick_def Let_def remaining_le_0_iff)

lemma ticks_calls:
  assumes "timerInterval t" and "\<not> hasCompletedRef t"
  shows "onComplete_calls (ticks t nows) =
           onComplete_calls t + (if \<exists>n \<in> set nows. endTimeRef t \<le> n then 1 else 0)"
  using assms
proof (induction nows arbitrary: t)
  case Nil
  show ?case by simp
next
  case (Cons now nows)
  show ?case
  proof (cases "endTimeRef t \<le> now")
    case True
    then have "\<not> timerInterval (tick now t)"
      and "onComplete_calls (tick now t) = onComplete_calls t + 1"
      using tick_at_deadline [of t now] Cons.prems by simp_all
    then show ?thesis using True by (simp add: ticks_cleared)
  next
    case False
    then have b: "now < endTimeRef t" by simp
    note tb = tick_before_deadline [OF Cons.prems(1) b]
    have "onComplete_calls (ticks (tick now t) nows) =
            onComplete_calls (tick now t) + (if \<exists>n \<in> set nows. endTimeRef (tick now t) \<le> n then 1 else 0)"
      using Cons.IH [of "tick now t"] tb Cons.prems(2) by simp
    then show ?thesis using tb False by simp
  qed
qed

text \<open>Once the Timer is unmounted, no tick calls the completion callback.\<close>

lemma unmounted_Timer_silent:
  "onComplete_calls (ticks (unmount_Timer t) nows) = onComplete_calls t"
  by (simp add: ticks_cleared unmount_Timer_def)

text \<open>
  Claim C5 (amended). Over any sequence of interval ticks of a Timer started at \<open>start\<close>
  with \<open>d\<close> seconds, the completion callback is invoked exactly once if some tick
  happens at or after \<open>start + 1000 d\<close> milliseconds and not at all otherwise: never
  twice, never before \<open>d\<close> seconds have elapsed. For \<open>d = 0\<close> nothing fires at mount:
  the interval is scheduled and completion fires at the first tick.
\<close>

theorem timer_completion_once_not_early:
  "onComplete_calls (ticks (Timer d start) nows) =
     (if \<exists>n \<in> set nows. start + d * 1000 \<le> n then 1 else 0)
   \<and> onComplete_calls (Timer 0 start) = 0
   \<and> timerInterval (Timer 0 start)
   \<and> onComplete_calls (tick now (Timer 0 start)) = (if start \<le> now then 1 else 0)"
proof -
  have a: "onComplete_calls (ticks (Timer d start) nows) =
     (if \<exists>n \<in> set nows. start + d * 1000 \<le> n then 1 else 0)"
    using ticks_calls [of "Timer d start" nows] by (simp add: Timer_def)
  have b: "onComplete_calls (tick now (Timer 0 start)) = (if start \<le> now then 1 else 0)"
    using ticks_calls [of "Timer 0 start" "[now]"] by (simp add: Timer_def)
  show ?thesis using a b by (simp add: Timer_def)
qed

text \<open>
  Claim C5 as stated fails for \<open>d = 0\<close>: mounting neither calls the completion callback
  nor leaves the interval unscheduled.
\<close>

theorem timer_zero_duration_counterexample:
  "\<not> (onComplete_calls (Timer 0 0) = 1 \<and> \<not> timerInterval (Timer 0 0))"
  by (simp add: Timer_def)

section \<open>Facts about the generation poller\<close>

declare scheduled_polls.simps [simp del]

lemma status_requests_fetch_images:
  "status_requests (fetch_images r st) = status_requests st"
  by (simp add: fetch_images_def status_requests_def Let_def
      split: images_reply.splits option.splits list.splits)

lemma poll_counts:
  assumes "poll b a st = (r, a', st')"
  shows "status_requests st' + a = status_requests st + a'"
    and "a \<le> maxAttempts \<Longrightarrow> a' \<le> maxAttempts"
    and "r = Poll_rescheduled \<Longrightarrow> a < maxAttempts"
  using assms
  by (auto simp: poll_def Let_def status_requests_def status_requests_fetch_images [unfolded status_requests_def]
      split: if_splits status_reply.splits)

lemma scheduled_polls_bound:
  "a \<le> maxAttempts \<Longrightarrow>
   status_requests (scheduled_polls b a st) + a \<le> status_requests st + maxAttempts"
proof (induction b a st rule: scheduled_polls.induct)
  case (1 b attempts st)
  obtain r a' st' where p: "poll b attempts st = (r, a', st')"
    by (cases "poll b attempts st") auto
  note c = poll_counts [OF p]
  show ?case
  proof (cases r)
    case Poll_done
    then show ?thesis
      using p c(1) c(2) "1.prems" by (subst scheduled_polls.simps) (simp add: status_requests_def)
  next
    case Poll_rescheduled
    have "status_requests (scheduled_polls b a' st') + a' \<le> status_requests st' + maxAttempts"
      using "1.IH" [of r "(a', st')" a' st'] p Poll_rescheduled c(2) "1.prems" by simp
    then show ?thesis
      using p Poll_rescheduled c(1) by (subst scheduled_polls.simps) simp
  next
    case (Poll_rejected msg)
    then show ?thesis
      using p c(1) c(2) "1.prems" by (subst scheduled_polls.simps) (simp add: status_requests_def)
  qed
qed

lemma pollGenerationStatus_bound:
  "status_requests (pollGenerationStatus b st) \<le> status_requests st + maxAttempts"
proof -
  obtain r a' st' where p: "poll b 0 st = (r, a', st')"
    by (cases "poll b 0 st") auto
  note c = poll_counts [OF p]
  show ?thesis
  proof (cases r)
    case Poll_rescheduled
    then show ?thesis
      using p c(1) c(2) scheduled_polls_bound [of a' b st']
      by (simp add: pollGenerationStatus_def)
  qed (use p c in \<open>simp_all add: pollGenerationStatus_def status_requests_def\<close>)
qed

lemma poll_pending:
  assumes "a < maxAttempts"
  shows "poll (always_pending b) a st =
           (Poll_rescheduled, a + 1,
            st\<lparr>sent := sent st @ [GET_check_generation_status (prolificId st)]\<rparr>)"
  using assms by (simp add: poll_def always_pending_def Let_def)

lemma poll_exhausted:
  assumes "a \<ge> maxAttempts"
  shows "poll b a st = (Poll_done, a, st\<lparr>currentPage := Page_noImages\<rparr>)"
  using assms by (simp add: poll_def)

lemma scheduled_polls_pending:
  assumes "a + n = maxAttempts"
  shows "scheduled_polls (always_pending b) a st =
           st\<lparr>sent := sent st @ replicate n (GET_check_generation_status (prolificId st)),
              currentPage := Page_noImages\<rparr>"
  using assms
proof (induction n arbitrary: a st)
  case 0
  then show ?case
    by (subst scheduled_polls.simps) (simp add: poll_exhausted)
next
  case (Suc n)
  then have lt: "a < maxAttempts" and nx: "Suc a + n = maxAttempts" by simp_all
  show ?case
    by (subst scheduled_polls.simps)
       (simp add: poll_pending [OF lt] Suc.IH [OF nx] replicate_append_same)
qed

text \<open>
  Claim C4. The maximum attempt count is 4, and for every backend the poller issues at
  most 4 status requests. When every status reply is \<^verbatim>\<open>pending\<close> it issues exactly 4,
  never a fifth, and ends on the no-images page.
\<close>

theorem poller_at_most_four_requests:
  "status_requests (pollGenerationStatus b st) \<le> status_requests st + 4
   \<and> maxAttempts = 4
   \<and> currentPage (pollGenerationStatus (always_pending b) st) = Page_noImages
   \<and> sent (pollGenerationStatus (always_pending b) st) =
       sent st @ replicate 4 (GET_check_generation_status (prolificId st))"
proof -
  have bound: "status_requests (pollGenerationStatus b st) \<le> status_requests st + 4"
    using pollGenerationStatus_bound [of b st] by (simp add: maxAttempts_def)
  have first: "poll (always_pending b) 0 st =
           (Poll_rescheduled, 1,
            st\<lparr>sent := sent st @ [GET_check_generation_status (prolificId st)]\<rparr>)"
    using poll_pending [of 0 b st] by (simp add: maxAttempts_def)
  have rest: "scheduled_polls (always_pending b) (Suc 0)
                (st\<lparr>sent := sent st @ [GET_check_generation_status (prolificId st)]\<rparr>) =
              st\<lparr>sent := sent st @ replicate 4 (GET_check_generation_status (prolificId st)),
                 currentPage := Page_noImages\<rparr>"
    using scheduled_polls_pending [of "Suc 0" 3 b
        "st\<lparr>sent := sent st @ [GET_check_generation_status (prolificId st)]\<rparr>"]
    by (simp add: maxAttempts_def numeral_eq_Suc)
  have run: "pollGenerationStatus (always_pending b) st =
              st\<lparr>sent := sent st @ replicate 4 (GET_check_generation_status (prolificId st)),
                 currentPage := Page_noImages\<rparr>"
    by (simp add: pollGenerationStatus_def first rest)
  show ?thesis
    using bound by (simp add: run maxAttempts_def)
qed

text \<open>A failure of the first status request is caught: the poller ends on the no-images page.\<close>

lemma first_poll_failure_caught:
  assumes "check_generation_status b 0 = Status_throws msg"
  shows "currentPage (pollGenerationStatus b st) = Page_noImages
         \<and> unhandled_rejections (pollGenerationStatus b st) = unhandled_rejections st"
  using assms by (simp add: pollGenerationStatus_def poll_def maxAttempts_def Let_def)

text \<open>
  Claim C6, evaluated where the code departs from it. The first status reply is
  \<^verbatim>\<open>pending\<close>, the second request fails at the transport level: the rejection of the
  scheduled poll is handled nowhere, no error is set, and the application stays on the
  processing page instead of reaching the no-images page.
\<close>

theorem later_poll_failure_unhandled:
  "currentPage (pollGenerationStatus second_poll_fails processing_state) = Page_processing
   \<and> unhandled_rejections (pollGenerationStatus second_poll_fails processing_state) = 1
   \<and> error (pollGenerationStatus second_poll_fails processing_state) = None"
proof -
  let ?st1 = "processing_state\<lparr>sent := sent processing_state @
                  [GET_check_generation_status (prolificId processing_state)]\<rparr>"
  have first: "poll second_poll_fails 0 processing_state = (Poll_rescheduled, 1, ?st1)"
    by (simp add: poll_def second_poll_fails_def maxAttempts_def Let_def)
  have second: "poll second_poll_fails (Suc 0) ?st1 =
      (Poll_rejected ''Failed to fetch'', 2,
       ?st1\<lparr>sent := sent ?st1 @ [GET_check_generation_status (prolificId ?st1)]\<rparr>)"
    by (simp add: poll_def second_poll_fails_def maxAttempts_def Let_def)
  have run: "pollGenerationStatus second_poll_fails processing_state =
      ?st1\<lparr>sent := sent ?st1 @ [GET_check_generation_status (prolificId ?st1)],
           unhandled_rejections := unhandled_rejections ?st1 + 1\<rparr>"
    by (simp add: pollGenerationStatus_def first) (subst scheduled_polls.simps, simp add: second)
  show ?thesis
    by (simp add: run) (simp add: processing_state_def MainApp_def)
qed

section \<open>Facts about the input phase\<close>

lemma nonblank_truthy: "nonblank x \<Longrightarrow> truthy x"
  by (auto simp: nonblank_def truthy_def trim_def)

lemma input_inv_mount: "input_inv (PromptInput now)"
  by (simp add: input_inv_def PromptInput_def)

lemma filter_nonblank_frozen:
  assumes "input_inv p" and "isTimeUp p"
  shows "filter nonblank (promptsRef p) = prompts p"
  using assms by (simp add: input_inv_def list_all_iff)

lemma handleSubmit_inv:
  "input_inv p \<Longrightarrow> isTimeUp p \<Longrightarrow> input_inv (fst (handleSubmit now p))"
  by (auto simp: handleSubmit_def input_inv_def Let_def split: option.splits)

lemma handleSubmit_isTimeUp: "isTimeUp (fst (handleSubmit now p)) = isTimeUp p"
  by (simp add: handleSubmit_def Let_def)

lemma input_control_inv:
  assumes "input_inv (snd s)"
  shows "input_inv (snd (input_control b e s))"
proof (cases s)
  case (Pair st p)
  with assms have inv: "input_inv p" by simp
  show ?thesis
  proof (cases e)
    case (KeyDown t)
    then show ?thesis using inv Pair
      by (auto simp: handleKeyPress_def input_inv_def split: option.splits)
  next
    case (Change i v)
    then show ?thesis using inv Pair
      by (auto simp: handlePromptChange_def sync_promptsRef_def input_inv_def Let_def
          split: option.splits)
  next
    case (TimerComplete t)
    then show ?thesis using inv Pair
      by (auto simp: handleTimerComplete_def sync_promptsRef_def input_inv_def Let_def list_all_iff
          split: option.splits)
  next
    case (Select i)
    then show ?thesis using inv Pair
      by (auto simp: handlePromptSelection_def input_inv_def split: option.splits)
  next
    case (Continue t)
    obtain p' r where h: "handleSubmit t p = (p', r)" by (cases "handleSubmit t p") auto
    have "isTimeUp p \<Longrightarrow> input_inv p'" using handleSubmit_inv [OF inv, of t] h by simp
    then show ?thesis using Continue Pair h inv
      by (cases r) (auto split: prod.splits)
  qed
qed

lemma input_step_inv: "input_inv (snd s) \<Longrightarrow> input_inv (snd (input_step b e s))"
  by (simp add: input_step_def input_control_inv)

lemma input_steps_inv: "input_inv (snd s) \<Longrightarrow> input_inv (snd (input_steps b es s))"
  by (induction es arbitrary: s) (simp_all add: input_step_inv)

lemma reachable_inv: "input_inv (snd (input_steps b es (st, PromptInput t0)))"
  by (rule input_steps_inv) (simp add: input_inv_mount)

lemma poll_frame_trans: "poll_frame a b \<Longrightarrow> poll_frame b c \<Longrightarrow> poll_frame a c"
  by (auto simp: poll_frame_def)

lemma fetch_images_frame: "poll_frame st (fetch_images r st)"
  by (simp add: fetch_images_def poll_frame_def Let_def
      split: images_reply.splits option.splits list.splits)

lemma poll_frame_sent:
  "\<not> is_save_prompt r \<Longrightarrow> poll_frame st (st\<lparr>sent := sent st @ [r]\<rparr>)"
  by (simp add: poll_frame_def)

lemma poll_frame_poll:
  assumes "poll b a st = (r, a', st')"
  shows "poll_frame st st'"
proof (cases "a \<ge> maxAttempts")
  case True
  then show ?thesis using assms by (auto simp: poll_def poll_frame_def)
next
  case False
  let ?st1 = "st\<lparr>sent := sent st @ [GET_check_generation_status (prolificId st)]\<rparr>"
  have f1: "poll_frame st ?st1" by (rule poll_frame_sent) simp
  have "poll_frame ?st1 st'"
    using assms False fetch_images_frame [of ?st1 "get_all_images b"]
    by (auto simp: poll_def Let_def poll_frame_def split: status_reply.splits if_splits)
  with f1 show ?thesis by (rule poll_frame_trans)
qed

lemma scheduled_polls_frame: "poll_frame st (scheduled_polls b a st)"
proof (induction b a st rule: scheduled_polls.induct)
  case (1 b attempts st)
  obtain r a' st' where p: "poll b attempts st = (r, a', st')"
    by (cases "poll b attempts st") auto
  note f = poll_frame_poll [OF p]
  show ?case
  proof (cases r)
    case Poll_done
    then show ?thesis using p f by (subst scheduled_polls.simps) simp
  next
    case Poll_rescheduled
    have "poll_frame st' (scheduled_polls b a' st')"
      using "1.IH" [of r "(a', st')" a' st'] p Poll_rescheduled by simp
    with f have "poll_frame st (scheduled_polls b a' st')" by (rule poll_frame_trans)
    then show ?thesis using p Poll_rescheduled by (subst scheduled_polls.simps) simp
  next
    case (Poll_rejected msg)
    have "poll_frame st' (st'\<lparr>unhandled_rejections := unhandled_rejections st' + 1\<rparr>)"
      by (simp add: poll_frame_def)
    with f have "poll_frame st (st'\<lparr>unhandled_rejections := unhandled_rejections st' + 1\<rparr>)"
      by (rule poll_frame_trans)
    then show ?thesis using p Poll_rejected by (subst scheduled_polls.simps) simp
  qed
qed

lemma pollGenerationStatus_frame: "poll_frame st (pollGenerationStatus b st)"
proof -
  obtain r a' st' where p: "poll b 0 st = (r, a', st')"
    by (cases "poll b 0 st") auto
  note f = poll_frame_poll [OF p]
  show ?thesis
  proof (cases r)
    case Poll_done
    then show ?thesis using p f by (simp add: pollGenerationStatus_def)
  next
    case Poll_rescheduled
    have "poll_frame st (scheduled_polls b a' st')"
      using f scheduled_polls_frame by (rule poll_frame_trans)
    then show ?thesis using p Poll_rescheduled by (simp add: pollGenerationStatus_def)
  next
    case (Poll_rejected msg)
    then show ?thesis using p f by (auto simp: pollGenerationStatus_def poll_frame_def)
  qed
qed

text \<open>What an empty submission does to the application.\<close>

lemma handlePromptSubmission_empty:
  assumes "currentPage st = Page_promptInput"
  shows "currentPage (handlePromptSubmission b now [] sel td st) \<noteq> Page_promptInput"
    and "filter is_save_prompt (sent (handlePromptSubmission b now [] sel td st)) =
           filter is_save_prompt (sent st)"
    and "currentTrialIndex st < 6 \<Longrightarrow>
           currentTrialIndex (handlePromptSubmission b now [] sel td st) = currentTrialIndex st + 1
           \<and> sent (handlePromptSubmission b now [] sel td st) = sent st"
proof -
  let ?st0 = "st\<lparr>isLoading := True, error := None\<rparr>"
  let ?p = "(?st0\<lparr>isLoading := True, currentPage := Page_processing, isLoading := False\<rparr>)"
  have f: "poll_frame ?p (pollGenerationStatus b ?p)" by (rule pollGenerationStatus_frame)
  show "currentPage (handlePromptSubmission b now [] sel td st) \<noteq> Page_promptInput"
    using f by (auto simp: handlePromptSubmission_def handleNextTrial_def after_next_trial_def
        Let_def poll_frame_def)
  show "filter is_save_prompt (sent (handlePromptSubmission b now [] sel td st)) =
           filter is_save_prompt (sent st)"
    using f by (auto simp: handlePromptSubmission_def handleNextTrial_def after_next_trial_def
        Let_def poll_frame_def)
  show "currentTrialIndex st < 6 \<Longrightarrow>
           currentTrialIndex (handlePromptSubmission b now [] sel td st) = currentTrialIndex st + 1
           \<and> sent (handlePromptSubmission b now [] sel td st) = sent st"
    by (auto simp: handlePromptSubmission_def handleNextTrial_def after_next_trial_def Let_def)
qed

text \<open>
  Claim C7. On an input page whose time is up and that has not been submitted, reached
  by any sequence of events from mounting: a selection is always an element of the
  frozen prompt set, and clicking the \<open>i\<close>-th prompt selects exactly that element; a
  submission the page passes on carries the frozen set and, when that set is not empty,
  a selected element of it; with a non-empty set and no selection Continue only shows
  the selection error and leaves the application where it is; with an empty set
  Continue submits without any selection and the application leaves the input page.
\<close>

theorem selection_member_of_frozen_set_and_required:
  assumes "s = input_steps b es (st0, PromptInput t0)"
    and "currentPage (fst s) = Page_promptInput"
    and "isTimeUp (snd s)"
    and "\<not> hasSubmitted (snd s)"
  shows "(\<forall>x. selectedPrompt (snd s) = Some x \<longrightarrow> x \<in> set (prompts (snd s)))
    \<and> (\<forall>i. i < length (prompts (snd s)) \<longrightarrow>
          selectedPrompt (snd (input_step b' (Select i) s)) = Some (prompts (snd s) ! i))
    \<and> (\<forall>p' vp sel td. handleSubmit now (snd s) = (p', Some (vp, sel, td)) \<longrightarrow>
          vp = prompts (snd s) \<and> (vp \<noteq> [] \<longrightarrow> (\<exists>x. sel = Some x \<and> x \<in> set vp)))
    \<and> (prompts (snd s) \<noteq> [] \<and> selectedPrompt (snd s) = None \<longrightarrow>
          input_step b' (Continue now) s =
            (fst s, (snd s)\<lparr>input_error := Some select_prompt_notice\<rparr>))
    \<and> (prompts (snd s) = [] \<longrightarrow>
          hasSubmitted (snd (input_step b' (Continue now) s))
          \<and> currentPage (fst (input_step b' (Continue now) s)) \<noteq> Page_promptInput)"
proof -
  obtain st p where s: "s = (st, p)" by (cases s) auto
  have "input_inv (snd s)"
    unfolding assms(1) by (rule reachable_inv)
  then have inv: "input_inv p"
    using s by simp
  have page: "currentPage st = Page_promptInput" and up: "isTimeUp p" and ns: "\<not> hasSubmitted p"
    using assms(2,3,4) s by simp_all
  have valid: "filter nonblank (promptsRef p) = prompts p"
    using inv up by (rule filter_nonblank_frozen)
  have member: "\<forall>x. selectedPrompt p = Some x \<longrightarrow> x \<in> set (prompts p)"
    using inv by (auto simp: input_inv_def split: option.splits)
  have sel_truthy: "\<forall>x. selectedPrompt p = Some x \<longrightarrow> truthy x"
    using inv up member by (auto simp: input_inv_def list_all_iff intro: nonblank_truthy)
  have c1: "\<forall>x. selectedPrompt (snd s) = Some x \<longrightarrow> x \<in> set (prompts (snd s))"
    using member s by simp
  have c2: "\<forall>i. i < length (prompts (snd s)) \<longrightarrow>
          selectedPrompt (snd (input_step b' (Select i) s)) = Some (prompts (snd s) ! i)"
    using s page up by (simp add: input_step_def handlePromptSelection_def)
  have c3: "\<forall>p' vp sel td. handleSubmit now (snd s) = (p', Some (vp, sel, td)) \<longrightarrow>
          vp = prompts (snd s) \<and> (vp \<noteq> [] \<longrightarrow> (\<exists>x. sel = Some x \<and> x \<in> set vp))"
    using s ns valid member
    by (cases "selectedPrompt p") (auto simp: handleSubmit_def Let_def split: if_splits)
  have c4: "prompts (snd s) \<noteq> [] \<and> selectedPrompt (snd s) = None \<longrightarrow>
          input_step b' (Continue now) s =
            (fst s, (snd s)\<lparr>input_error := Some select_prompt_notice\<rparr>)"
    using s page up ns valid by (simp add: input_step_def handleSubmit_def Let_def)
  have c5: "prompts (snd s) = [] \<longrightarrow>
          hasSubmitted (snd (input_step b' (Continue now) s))
          \<and> currentPage (fst (input_step b' (Continue now) s)) \<noteq> Page_promptInput"
    using s page up ns valid handlePromptSubmission_empty(1) [OF page]
    by (simp add: input_step_def handleSubmit_def Let_def)
  show ?thesis using c1 c2 c3 c4 c5 by blast
qed

lemmas input_eval =
  input_step_def practice_start_def MainApp_def PromptInput_def handleKeyPress_def
  handlePromptChange_def sync_promptsRef_def handleTimerComplete_def handlePromptSelection_def
  handleSubmit_def Let_def nonblank_def trim_def truthy_def is_whitespace_def

lemma one_prompt_frozen:
  "input_steps all_ok one_prompt_typed (practice_start, PromptInput 0) =
     (practice_start,
      \<lparr> prompts = [''a quiet forest''], isTimeUp = True, selectedPrompt = None,
        input_error = None, firstKeypressTime = Some 900, firstKeypressRecorded = True,
        responseStartRef = 0, selectionStartTimeRef = Some 10000, hasSubmitted = False,
        promptsRef = [''a quiet forest''] \<rparr>)"
  by (simp add: one_prompt_typed_def input_eval)

theorem selection_member_of_frozen_set_and_required_witness:
  "currentPage (fst (input_steps all_ok one_prompt_typed (practice_start, PromptInput 0))) = Page_promptInput
   \<and> isTimeUp (snd (input_steps all_ok one_prompt_typed (practice_start, PromptInput 0)))
   \<and> \<not> hasSubmitted (snd (input_steps all_ok one_prompt_typed (practice_start, PromptInput 0)))
   \<and> selectedPrompt (snd (input_step all_ok (Select 0)
          (input_steps all_ok one_prompt_typed (practice_start, PromptInput 0)))) = Some ''a quiet forest''
   \<and> fst (input_step all_ok (Continue 12000)
          (input_steps all_ok one_prompt_typed (practice_start, PromptInput 0))) = practice_start
   \<and> input_error (snd (input_step all_ok (Continue 12000)
          (input_steps all_ok one_prompt_typed (practice_start, PromptInput 0)))) = Some select_prompt_notice"
proof -
  let ?s = "input_steps all_ok one_prompt_typed (practice_start, PromptInput 0)"
  have h1: "currentPage (fst ?s) = Page_promptInput"
    by (simp add: one_prompt_frozen) (simp add: practice_start_def)
  have h2: "isTimeUp (snd ?s)" and h3: "\<not> hasSubmitted (snd ?s)"
    by (simp_all add: one_prompt_frozen)
  note t = selection_member_of_frozen_set_and_required
             [OF refl h1 h2 h3, of all_ok 12000]
  have p: "prompts (snd ?s) = [''a quiet forest'']" and n: "selectedPrompt (snd ?s) = None"
    by (simp_all add: one_prompt_frozen)
  from t p have "selectedPrompt (snd (input_step all_ok (Select 0) ?s)) = Some ''a quiet forest''"
    by simp
  moreover from t p n have "input_step all_ok (Continue 12000) ?s =
      (fst ?s, (snd ?s)\<lparr>input_error := Some select_prompt_notice\<rparr>)"
    by simp
  ultimately show ?thesis
    using h1 h2 h3 by (simp add: one_prompt_frozen)
qed

text \<open>The page timing effect sends no prompt record.\<close>

lemma usePageTracking_saves_no_prompt:
  "filter is_save_prompt (sent (usePageTracking now st)) = filter is_save_prompt (sent st)"
  by (simp add: usePageTracking_def Let_def)

text \<open>
  Claim C2 (amended). When the time runs out on an input page whose prompts are all
  blank, the page shows the participation notice and freezes an empty prompt set;
  Continue then submits without a selection and the application leaves the input page,
  with the trial index advanced by one before the last trial. No request to save a
  prompt is issued on the way, neither by the handlers nor by the page timing effect
  that follows the page change: the empty outcome is not recorded.
\<close>

theorem empty_prompt_set_advances_without_record:
  assumes "s = input_steps b es (st0, PromptInput t0)"
    and "currentPage (fst s) = Page_promptInput"
    and "\<not> isTimeUp (snd s)"
    and "filter nonblank (prompts (snd s)) = []"
  shows "fst (input_step b1 (TimerComplete t) s) = fst s
    \<and> prompts (snd (input_step b1 (TimerComplete t) s)) = []
    \<and> input_error (snd (input_step b1 (TimerComplete t) s)) = Some no_prompt_notice
    \<and> hasSubmitted (snd (input_step b2 (Continue now) (input_step b1 (TimerComplete t) s)))
    \<and> currentPage (fst (input_step b2 (Continue now) (input_step b1 (TimerComplete t) s)))
         \<noteq> Page_promptInput
    \<and> filter is_save_prompt
         (sent (fst (input_step b2 (Continue now) (input_step b1 (TimerComplete t) s)))) =
       filter is_save_prompt (sent (fst s))
    \<and> filter is_save_prompt
         (sent (usePageTracking t'
            (fst (input_step b2 (Continue now) (input_step b1 (TimerComplete t) s))))) =
       filter is_save_prompt (sent (fst s))
    \<and> (currentTrialIndex (fst s) < 6 \<longrightarrow>
         currentTrialIndex (fst (input_step b2 (Continue now) (input_step b1 (TimerComplete t) s)))
           = currentTrialIndex (fst s) + 1)"
proof -
  obtain st p where s: "s = (st, p)" by (cases s) auto
  have "input_inv (snd s)"
    unfolding assms(1) by (rule reachable_inv)
  then have inv: "input_inv p"
    using s by simp
  have page: "currentPage st = Page_promptInput" and up: "\<not> isTimeUp p"
    and blank: "filter nonblank (prompts p) = []"
    using assms(2,3,4) s by simp_all
  have ref: "promptsRef p = prompts p" and ns: "\<not> hasSubmitted p" and nsel: "selectedPrompt p = None"
    using inv up by (simp_all add: input_inv_def)
  let ?p1 = "p\<lparr>isTimeUp := True, input_error := Some no_prompt_notice, prompts := [],
               promptsRef := []\<rparr>"
  have s1: "input_step b1 (TimerComplete t) s = (st, ?p1)"
    using s page up blank ref
    by (simp add: input_step_def handleTimerComplete_def sync_promptsRef_def Let_def)
  obtain td where s2: "input_step b2 (Continue now) (st, ?p1) =
              (handlePromptSubmission b2 now [] None td st, ?p1\<lparr>hasSubmitted := True\<rparr>)"
    using page ns nsel by (simp add: input_step_def handleSubmit_def Let_def)
  note e = handlePromptSubmission_empty [OF page, of b2 now None td]
  show ?thesis
    unfolding s1 s2 using e s by (simp add: usePageTracking_saves_no_prompt)
qed

theorem empty_prompt_set_advances_without_record_witness:
  "currentPage (fst (input_steps all_ok [] (practice_start, PromptInput 0))) = Page_promptInput
   \<and> \<not> isTimeUp (snd (input_steps all_ok [] (practice_start, PromptInput 0)))
   \<and> filter nonblank (prompts (snd (input_steps all_ok [] (practice_start, PromptInput 0)))) = []
   \<and> input_error (snd (input_step all_ok (TimerComplete 10000)
        (input_steps all_ok [] (practice_start, PromptInput 0)))) = Some no_prompt_notice
   \<and> currentTrialIndex (fst (input_step all_ok (Continue 12000) (input_step all_ok (TimerComplete 10000)
        (input_steps all_ok [] (practice_start, PromptInput 0))))) = 1
   \<and> filter is_save_prompt
        (sent (usePageTracking 12000
           (fst (input_step all_ok (Continue 12000) (input_step all_ok (TimerComplete 10000)
              (input_steps all_ok [] (practice_start, PromptInput 0))))))) = []"
proof -
  let ?s = "input_steps all_ok [] (practice_start, PromptInput 0)"
  have h1: "currentPage (fst ?s) = Page_promptInput"
    by (simp add: practice_start_def)
  have h2: "\<not> isTimeUp (snd ?s)"
    by (simp add: PromptInput_def)
  have h3: "filter nonblank (prompts (snd ?s)) = []"
    by (simp add: PromptInput_def nonblank_def trim_def truthy_def)
  have i: "currentTrialIndex (fst ?s) = 0" and e: "sent (fst ?s) = []"
    by (simp_all add: practice_start_def MainApp_def)
  note t = empty_prompt_set_advances_without_record
             [OF refl h1 h2 h3, of all_ok 10000 all_ok 12000 12000]
  show ?thesis
    using t h1 h2 h3 i e by simp
qed

text \<open>
  Claim C2 as stated fails on the practice trial: nothing is typed, the time runs out,
  Continue is clicked, the application moves on and no prompt record has been sent.
\<close>

theorem empty_prompt_set_record_counterexample:
  "prompts (snd (input_steps all_ok [TimerComplete 10000] (practice_start, PromptInput 0))) = []
   \<and> currentPage (fst (input_steps all_ok [TimerComplete 10000, Continue 12000]
         (practice_start, PromptInput 0))) = Page_mainTrialTransition
   \<and> \<not> list_ex is_save_prompt (sent (fst (input_steps all_ok [TimerComplete 10000, Continue 12000]
         (practice_start, PromptInput 0))))"
  by (simp add: input_eval handlePromptSubmission_def handleNextTrial_def after_next_trial_def)

text \<open>Once \<^verbatim>\<open>hasSubmitted\<close> is set, Continue does nothing.\<close>

lemma submitted_Continue_ignored:
  "hasSubmitted p \<Longrightarrow> input_step b (Continue now) (st, p) = (st, p)"
  by (simp add: input_step_def handleSubmit_def)

text \<open>
  Claim C3, evaluated where the code departs from it. One prompt is typed and selected,
  and the backend refuses to save it: the application stays on the input page with
  the error set, the prompt and the selection are still there, but a second click on
  Continue, against a backend that would now succeed, changes nothing and sends nothing.
\<close>

theorem failed_save_cannot_be_retried:
  "currentPage (fst (input_steps save_prompt_fails (one_prompt_typed @ [Select 0, Continue 12000])
      (practice_start, PromptInput 0))) = Page_promptInput
   \<and> error (fst (input_steps save_prompt_fails (one_prompt_typed @ [Select 0, Continue 12000])
      (practice_start, PromptInput 0))) = Some ''Failed to save prompt''
   \<and> prompts (snd (input_steps save_prompt_fails (one_prompt_typed @ [Select 0, Continue 12000])
      (practice_start, PromptInput 0))) = [''a quiet forest'']
   \<and> selectedPrompt (snd (input_steps save_prompt_fails (one_prompt_typed @ [Select 0, Continue 12000])
      (practice_start, PromptInput 0))) = Some ''a quiet forest''
   \<and> input_step all_ok (Continue 13000)
        (input_steps save_prompt_fails (one_prompt_typed @ [Select 0, Continue 12000])
           (practice_start, PromptInput 0)) =
      input_steps save_prompt_fails (one_prompt_typed @ [Select 0, Continue 12000])
        (practice_start, PromptInput 0)"
  by (simp add: one_prompt_typed_def input_eval handlePromptSubmission_def getCurrentTrial_def
      save_prompt_fails_def all_ok_def)

section \<open>Facts about the rating phase\<close>

lemma length_formattedRatings:
  "length imgs \<le> length rs \<Longrightarrow> length (formattedRatings pid now rs imgs) = length imgs"
  by (simp add: formattedRatings_def)












section \<open>Facts about the countdown durations\<close>

lemma input_phase_tick_cleared:
  "\<not> timerInterval (fst tp) \<Longrightarrow> input_phase_tick n tp = tp"
  by (simp add: input_phase_tick_def tick_cleared)

lemma input_phase_ticks_cleared:
  "\<not> timerInterval (fst tp) \<Longrightarrow> input_phase_ticks tp ns = tp"
  by (induction ns) (simp_all add: input_phase_tick_cleared)

lemma isTimeUp_handleTimerComplete: "isTimeUp (sync_promptsRef (handleTimerComplete n p))"
  by (simp add: handleTimerComplete_def sync_promptsRef_def Let_def)

lemma input_phase_ticks_isTimeUp:
  assumes "timerInterval (fst tp)" and "\<not> hasCompletedRef (fst tp)" and "\<not> isTimeUp (snd tp)"
  shows "isTimeUp (snd (input_phase_ticks tp ns)) = (\<exists>n \<in> set ns. endTimeRef (fst tp) \<le> n)"
  using assms
proof (induction ns arbitrary: tp)
  case Nil
  then show ?case by simp
next
  case (Cons n ns)
  show ?case
  proof (cases "endTimeRef (fst tp) \<le> n")
    case True
    note d = tick_at_deadline [OF Cons.prems(1) True Cons.prems(2)]
    have step: "input_phase_tick n tp =
        (unmount_Timer (tick n (fst tp)), sync_promptsRef (handleTimerComplete n (snd tp)))"
      using d by (simp add: input_phase_tick_def Let_def)
    have "\<not> timerInterval (fst (input_phase_tick n tp))"
      by (simp add: step unmount_Timer_def)
    then have "input_phase_ticks (input_phase_tick n tp) ns = input_phase_tick n tp"
      by (rule input_phase_ticks_cleared)
    then show ?thesis
      using True by (simp add: step isTimeUp_handleTimerComplete)
  next
    case False
    then have b: "n < endTimeRef (fst tp)" by simp
    note tb = tick_before_deadline [OF Cons.prems(1) b]
    have step: "input_phase_tick n tp = (tick n (fst tp), snd tp)"
      using tb by (simp add: input_phase_tick_def Let_def)
    have "isTimeUp (snd (input_phase_ticks (input_phase_tick n tp) ns)) =
            (\<exists>m \<in> set ns. endTimeRef (fst (input_phase_tick n tp)) \<le> m)"
      using tb Cons.prems by (intro Cons.IH) (simp_all add: step)
    then show ?thesis
      using tb False by (simp add: step)
  qed
qed

text \<open>
  Claim C9. The Timer of an input page is started with \<open>PRACTICE_TIME = 10\<close> seconds on the
  practice trial and \<open>TRIAL_TIME = 12\<close> seconds on a main trial, and that is the countdown the
  page uses: over any sequence of interval ticks the Timer calls completion once, at the
  first tick 10 (practice) or 12 (main) seconds or more after mounting and at none before,
  and the input page's time is up exactly when such a tick has happened. The instruction
  pages meanwhile speak of 30 seconds and of 2 minutes.
\<close>

theorem input_phase_countdown_durations:
  "PRACTICE_TIME = 10 \<and> TRIAL_TIME = 12
   \<and> currentTime True = PRACTICE_TIME \<and> currentTime False = TRIAL_TIME
   \<and> timeLeft (input_phase_Timer st now) = (if currentTrialIndex st = 0 then 10 else 12)
   \<and> endTimeRef (input_phase_Timer st now) =
       now + (if currentTrialIndex st = 0 then 10 else 12) * 1000
   \<and> onComplete_calls (ticks (input_phase_Timer st now) nows) =
       (if \<exists>n \<in> set nows. now + (if currentTrialIndex st = 0 then 10 else 12) * 1000 \<le> n
        then 1 else 0)
   \<and> isTimeUp (snd (input_phase_ticks (input_phase_mount st now) nows)) =
       (\<exists>n \<in> set nows. now + (if currentTrialIndex st = 0 then 10 else 12) * 1000 \<le> n)
   \<and> mentions (GeneralInstructions_task_structure ! 3) ''2 minutes''
   \<and> mentions (GeneralInstructions_task_structure ! 1) ''(30s)''
   \<and> mentions (PracticeInstructions_steps ! 0) ''30 seconds''"
proof -
  have e: "endTimeRef (input_phase_Timer st now) =
       now + (if currentTrialIndex st = 0 then 10 else 12) * 1000"
    and i: "timerInterval (input_phase_Timer st now)"
    and h: "\<not> hasCompletedRef (input_phase_Timer st now)"
    and c: "onComplete_calls (input_phase_Timer st now) = 0"
    by (simp_all add: currentTime_def input_phase_Timer_def Timer_def TRIAL_TIME_def
        PRACTICE_TIME_def)
  have calls: "onComplete_calls (ticks (input_phase_Timer st now) nows) =
       (if \<exists>n \<in> set nows. now + (if currentTrialIndex st = 0 then 10 else 12) * 1000 \<le> n
        then 1 else 0)"
    using ticks_calls [OF i h, of nows] by (simp only: e c)
  have up: "isTimeUp (snd (input_phase_ticks (input_phase_mount st now) nows)) =
       (\<exists>n \<in> set nows. now + (if currentTrialIndex st = 0 then 10 else 12) * 1000 \<le> n)"
    using input_phase_ticks_isTimeUp [of "input_phase_mount st now" nows] i h
    by (simp add: input_phase_mount_def e PromptInput_def)
  have durations: "PRACTICE_TIME = 10 \<and> TRIAL_TIME = 12
   \<and> currentTime True = PRACTICE_TIME \<and> currentTime False = TRIAL_TIME
   \<and> timeLeft (input_phase_Timer st now) = (if currentTrialIndex st = 0 then 10 else 12)"
    by (simp add: currentTime_def input_phase_Timer_def Timer_def TRIAL_TIME_def PRACTICE_TIME_def)
  have texts: "mentions (GeneralInstructions_task_structure ! 3) ''2 minutes''
   \<and> mentions (GeneralInstructions_task_structure ! 1) ''(30s)''
   \<and> mentions (PracticeInstructions_steps ! 0) ''30 seconds''"
    by (simp add: GeneralInstructions_task_structure_def PracticeInstructions_steps_def)
  show ?thesis
    using durations e calls up texts by blast
qed

section \<open>Facts about the experience survey\<close>

lemma survey_handleSubmit_sends_nothing:
  "sent (snd (survey_handleSubmit responses st)) = sent st"
  by (simp add: survey_handleSubmit_def)

text \<open>
  Claim C1, evaluated where the code departs from it. Submitting the filled-in survey
  moves on to the general instructions without sending the responses: the handler issues
  no request, and the only request the page change causes is the page timing.
\<close>

theorem survey_responses_never_sent:
  "fst (survey_handleSubmit survey_filled survey_start) = None
   \<and> currentPage (snd (survey_handleSubmit survey_filled survey_start)) = Page_generalInstructions
   \<and> sent (snd (survey_handleSubmit survey_filled survey_start)) = []
   \<and> sent (usePageTracking 60000 (snd (survey_handleSubmit survey_filled survey_start))) =
       [POST_save_timing ''R7X9'' (Page_name Page_aiExperienceSurvey) 60000 60000]"
  by (simp add: survey_handleSubmit_def survey_filled_def survey_start_def MainApp_def
      usePageTracking_def truthy_def Let_def)

theorem survey_responses_never_sent_witness:
  "currentPage survey_start = Page_aiExperienceSurvey
   \<and> truthy (genAiExperience survey_filled)
   \<and> truthy (textToImageExperience survey_filled)
   \<and> currentPage (snd (survey_handleSubmit survey_filled survey_start)) = Page_generalInstructions
   \<and> \<not> list_ex is_save_survey
         (sent (usePageTracking 60000 (snd (survey_handleSubmit survey_filled survey_start))))"
  using survey_responses_never_sent
  by (simp add: survey_start_def survey_filled_def truthy_def)

text \<open>
  The older variant does what the claim says: it posts the survey, and moves on exactly
  when the response is \<^verbatim>\<open>ok\<close> and its body parses; otherwise it stays with an error.
\<close>

lemma older_survey_posts_and_gates:
  assumes "sa_currentPage st = Page_aiExperienceSurvey"
    and "truthy (genAiExperience responses)" and "truthy (textToImageExperience responses)"
  shows "(\<exists>d. sa_sent (snd (survey_handleSubmit_older reply now responses st)) =
              sa_sent st @ [POST_save_survey d])
    \<and> (sa_currentPage (snd (survey_handleSubmit_older reply now responses st)) = Page_consent
         \<longleftrightarrow> (\<exists>d. reply = Survey_response True (Body_detail d)))
    \<and> (sa_currentPage (snd (survey_handleSubmit_older reply now responses st)) = Page_consent
         \<or> sa_currentPage (snd (survey_handleSubmit_older reply now responses st)) =
              Page_aiExperienceSurvey
            \<and> sa_error (snd (survey_handleSubmit_older reply now responses st)) \<noteq> None)"
  using assms
  by (cases reply; cases "case reply of Survey_response ok body \<Rightarrow> body | _ \<Rightarrow> Body_detail None")
     (auto simp: survey_handleSubmit_older_def handleAiExperienceSurveySubmit_def Let_def
       split: error_body.splits)

end
